theory Spec2Isabelle
  imports Complex_Main "HOL-Library.Char_ord" "HOL-Library.List_Lexorder"
begin

section \<open>JavaScript values and coercions used by the quantum dashboard backend\<close>

text \<open>
  A cell of a parsed sheet is a number, a string, a boolean or a \<open>Date\<close> (the sheets are
  read with \<open>cellDates\<close>); \<open>JUndef\<close> is what reading an absent property gives
  (\<open>undefined\<close>, and \<open>null\<close> where the source writes it: both are falsy and the
  program never tells them apart).  Numbers are exact rationals: IEEE rounding, infinities
  and overflow are not modelled.  \<open>NaN\<close> is \<open>None\<close> in \<open>jsnum\<close>.  A \<open>Date\<close> cell
  carries its time value in milliseconds.
\<close>

datatype jsval = JUndef | JNum rat | JStr string | JBool bool | JDate int

type_synonym jsnum = "rat option"

text \<open>
  Built-ins of the JavaScript host that the program calls and that are not part of the
  repository: string-to-number conversion, number-to-string conversion of non-integers,
  \<open>Date.parse\<close>, the local-time calendar fields of a time value
  (\<open>getFullYear\<close>, \<open>getMonth() + 1\<close>, \<open>getDate\<close>) and \<open>Date.prototype.toString\<close>.
  They are parameters of the model.
\<close>

record host =
  str_to_num :: "string \<Rightarrow> rat option"
  frac_to_str :: "rat \<Rightarrow> string"
  date_parse :: "string \<Rightarrow> int option"
  local_ymd :: "int \<Rightarrow> int \<times> nat \<times> nat"
  date_to_str :: "int \<Rightarrow> string"

fun truthy :: "jsval \<Rightarrow> bool" where
  "truthy JUndef = False"
| "truthy (JNum x) = (x \<noteq> 0)"
| "truthy (JStr s) = (s \<noteq> [])"
| "truthy (JBool b) = b"
| "truthy (JDate t) = True"

text \<open>\<open>a || b\<close>\<close>

definition js_or :: "jsval \<Rightarrow> jsval \<Rightarrow> jsval" where
  "js_or a b = (if truthy a then a else b)"

text \<open>\<open>Number(v)\<close>\<close>

fun to_number :: "host \<Rightarrow> jsval \<Rightarrow> jsnum" where
  "to_number h JUndef = None"
| "to_number h (JNum x) = Some x"
| "to_number h (JStr s) = str_to_num h s"
| "to_number h (JBool b) = Some (if b then 1 else 0)"
| "to_number h (JDate t) = Some (of_int t)"

text \<open>\<open>n || 0\<close> for a number \<open>n\<close>: \<open>NaN\<close> and \<open>0\<close> are falsy.\<close>

definition num_or0 :: "jsnum \<Rightarrow> rat" where
  "num_or0 n = (case n of None \<Rightarrow> 0 | Some x \<Rightarrow> x)"

text \<open>\<open>a + b\<close> on numbers: \<open>NaN\<close> is absorbing.\<close>

definition js_add :: "jsnum \<Rightarrow> jsnum \<Rightarrow> jsnum" where
  "js_add a b = (case a of None \<Rightarrow> None | Some x \<Rightarrow> (case b of None \<Rightarrow> None | Some y \<Rightarrow> Some (x + y)))"

fun show_nat :: "nat \<Rightarrow> string" where
  "show_nat n = (if n < 10 then [''0123456789'' ! n]
                 else show_nat (n div 10) @ [''0123456789'' ! (n mod 10)])"

declare show_nat.simps [simp del]

definition show_int :: "int \<Rightarrow> string" where
  "show_int i = (if i < 0 then ''-'' @ show_nat (nat (- i)) else show_nat (nat i))"

text \<open>\<open>String(x)\<close> for a number: decimal digits for an integer below \<open>10^21\<close> in
  magnitude, the host's rendering otherwise.\<close>

definition num_to_str :: "host \<Rightarrow> rat \<Rightarrow> string" where
  "num_to_str h x =
     (if x = of_int \<lfloor>x\<rfloor> \<and> \<bar>x\<bar> < 10 ^ 21 then show_int \<lfloor>x\<rfloor> else frac_to_str h x)"

text \<open>\<open>String(v)\<close>\<close>

fun to_string :: "host \<Rightarrow> jsval \<Rightarrow> string" where
  "to_string h JUndef = ''undefined''"
| "to_string h (JNum x) = num_to_str h x"
| "to_string h (JStr s) = s"
| "to_string h (JBool b) = (if b then ''true'' else ''false'')"
| "to_string h (JDate t) = date_to_str h t"

text \<open>\<open>x.toFixed(2)\<close>: the sign is split off, the magnitude is rounded to the nearest
  hundredth (a tie goes up), and is printed with at least one digit before the point.
  \<open>NaN.toFixed(2)\<close> is \<open>"NaN"\<close>.  Magnitudes from \<open>10^21\<close> on fall back to
  \<open>String(x)\<close>.\<close>

definition pad2 :: "nat \<Rightarrow> string" where
  "pad2 n = (if n < 10 then ''0'' @ show_nat n else show_nat n)"

definition to_fixed2 :: "host \<Rightarrow> rat \<Rightarrow> string" where
  "to_fixed2 h x =
     (if \<bar>x\<bar> \<ge> 10 ^ 21 then num_to_str h x
      else let n = nat \<lfloor>\<bar>x\<bar> * 100 + 1 / 2\<rfloor>
           in (if x < 0 then ''-'' else '''') @ show_nat (n div 100) @ ''.'' @ pad2 (n mod 100))"

definition js_to_fixed2 :: "host \<Rightarrow> jsnum \<Rightarrow> string" where
  "js_to_fixed2 h n = (case n of None \<Rightarrow> ''NaN'' | Some x \<Rightarrow> to_fixed2 h x)"

text \<open>\<open>s.toLowerCase()\<close> on ASCII letters.\<close>

definition lower_char :: "char \<Rightarrow> char" where
  "lower_char c =
     (case map_of (zip ''ABCDEFGHIJKLMNOPQRSTUVWXYZ'' ''abcdefghijklmnopqrstuvwxyz'') c of
        None \<Rightarrow> c | Some l \<Rightarrow> l)"

definition toLowerCase :: "string \<Rightarrow> string" where
  "toLowerCase s = map lower_char s"


section \<open>Rows and the column resolver\<close>

text \<open>
  A row is an object from column name to cell, in the order \<open>Object.keys\<close> enumerates it.
  The cache \<open>cachedUnitsData\<close> is an object from unit name to the unit's rows.
\<close>

type_synonym row = "(string \<times> jsval) list"

type_synonym cache = "(string \<times> row list) list"

text \<open>\<open>curr.k\<close>\<close>

definition get :: "row \<Rightarrow> string \<Rightarrow> jsval" where
  "get r k = (case map_of r k of None \<Rightarrow> JUndef | Some v \<Rightarrow> v)"

text \<open>\<open>Object.keys(curr).find(k => k.toLowerCase() === col.toLowerCase())\<close>\<close>

definition find_col :: "row \<Rightarrow> string \<Rightarrow> string option" where
  "find_col r col = find (\<lambda>k. toLowerCase k = toLowerCase col) (map fst r)"

text \<open>\<open>curr[actualCol || col]\<close>\<close>

definition resolve :: "row \<Rightarrow> string \<Rightarrow> jsval" where
  "resolve r col =
     get r (case find_col r col of None \<Rightarrow> col | Some k \<Rightarrow> if k = [] then col else k)"

text \<open>\<open>Number(curr[actualCol || col]) || 0\<close>\<close>

definition col_num :: "host \<Rightarrow> row \<Rightarrow> string \<Rightarrow> rat" where
  "col_num h r col = num_or0 (to_number h (resolve r col))"

definition alarmColumns :: "string list" where
  "alarmColumns = [''NSABlks'', ''LABlks'', ''TABlks'', ''CABlks'', ''CCABlks'',
     ''FABlks'', ''PPABlks'', ''PFABlks'', ''CVpABlks'', ''HpABlks'', ''CMTABlks'']"

definition cutColumns :: "string list" where
  "cutColumns = [''YarnFaults'', ''YarnJoints'', ''YarnBreaks'', ''NCuts'', ''SCuts'',
     ''LCuts'', ''TCuts'', ''FDCuts'', ''PPCuts'']"

definition qualityColumns :: "string list" where
  "qualityColumns = [''Thin50'', ''Thick50'', ''Nep200'', ''CVAvg'', ''HAvg'', ''IPI'', ''HSIPI'']"

definition all_units :: "string list" where
  "all_units = [''U-1'', ''U-2'', ''U-3'', ''U-4'', ''U-5'', ''U-6'']"

text \<open>The identity fields, each with its spellings tried in order.\<close>

definition date_val :: "row \<Rightarrow> jsval" where
  "date_val r = js_or (js_or (get r ''ShiftStartTime'') (get r ''shiftstarttime'')) (get r ''Date'')"

definition shift_val :: "row \<Rightarrow> jsval" where
  "shift_val r =
     js_or (js_or (js_or (get r ''ShiftNumber'') (get r ''Shift'')) (get r ''shiftnumber''))
       (get r ''shift'')"

definition machine_val :: "row \<Rightarrow> jsval" where
  "machine_val r =
     js_or (js_or (js_or (get r ''MachineName'') (get r ''machinename'')) (get r ''Machine''))
       (get r ''machine'')"

text \<open>\<open>Number(curr.YarnLength || curr.yarnlength) || 0\<close>\<close>

definition yarn_length :: "host \<Rightarrow> row \<Rightarrow> rat" where
  "yarn_length h r = num_or0 (to_number h (js_or (get r ''YarnLength'') (get r ''yarnlength'')))"

text \<open>\<open>Number(curr.YarnFaults || curr.yarnfaults) || 0\<close>\<close>

definition yarn_faults :: "host \<Rightarrow> row \<Rightarrow> rat" where
  "yarn_faults h r = num_or0 (to_number h (js_or (get r ''YarnFaults'') (get r ''yarnfaults'')))"

text \<open>\<open>Number(curr.IPRefLength || curr.ipreflength || curr.RefLength || 0) || 0\<close>\<close>

definition ip_ref_length :: "host \<Rightarrow> row \<Rightarrow> rat" where
  "ip_ref_length h r =
     num_or0 (to_number h
       (js_or (js_or (js_or (get r ''IPRefLength'') (get r ''ipreflength'')) (get r ''RefLength''))
          (JNum 0)))"

text \<open>\<open>Number(curr.A || curr.a || 0)\<close>: no \<open>|| 0\<close> outside, so \<open>NaN\<close> survives.\<close>

definition num2 :: "host \<Rightarrow> row \<Rightarrow> string \<Rightarrow> string \<Rightarrow> jsnum" where
  "num2 h r a b = to_number h (js_or (js_or (get r a) (get r b)) (JNum 0))"

definition ipi :: "host \<Rightarrow> row \<Rightarrow> jsnum" where
  "ipi h r =
     js_add (js_add (num2 h r ''Thin50'' ''thin50'') (num2 h r ''Thick50'' ''thick50''))
       (num2 h r ''Nep200'' ''nep200'')"

definition hsipi :: "host \<Rightarrow> row \<Rightarrow> jsnum" where
  "hsipi h r =
     js_add (js_add (num2 h r ''Thin40'' ''thin40'') (num2 h r ''Thick35'' ''thick35''))
       (num2 h r ''Nep140'' ''nep140'')"

text \<open>The value \<open>val\<close> of one quality column for one row (the body of
  \<open>qualityColumns.forEach\<close>, the same text at unit, article and machine level).\<close>

definition quality_val :: "host \<Rightarrow> row \<Rightarrow> string \<Rightarrow> jsnum" where
  "quality_val h r col =
     (if col = ''IPI'' then ipi h r
      else if col = ''HSIPI'' then hsipi h r
      else Some (col_num h r col))"

section \<open>Dates\<close>

text \<open>\<open>new Date(v)\<close>: the time value, \<open>None\<close> for an invalid date.\<close>

fun new_Date :: "host \<Rightarrow> jsval \<Rightarrow> int option" where
  "new_Date h JUndef = None"
| "new_Date h (JNum x) =
     (if \<bar>x\<bar> \<le> 8640000000000000 then Some (if x \<ge> 0 then \<lfloor>x\<rfloor> else \<lceil>x\<rceil>) else None)"
| "new_Date h (JStr s) = date_parse h s"
| "new_Date h (JBool b) = Some (if b then 1 else 0)"
| "new_Date h (JDate t) = Some t"

definition format_ymd :: "host \<Rightarrow> int \<Rightarrow> string" where
  "format_ymd h t =
     (case local_ymd h t of (y, m, d) \<Rightarrow> show_int y @ ''-'' @ pad2 m @ ''-'' @ pad2 d)"

text \<open>\<open>formatDateToYYYYMMDD(d)\<close> for a \<open>Date\<close> object \<open>d\<close> (every call site passes one):
  \<open>null\<close> for an invalid date.\<close>

definition formatDateToYYYYMMDD :: "host \<Rightarrow> int option \<Rightarrow> string option" where
  "formatDateToYYYYMMDD h d = (case d of None \<Rightarrow> None | Some t \<Rightarrow> Some (format_ymd h t))"

section \<open>The filter resolver of getQuantumData\<close>

text \<open>A query parameter is a string or absent; the empty string is falsy.\<close>

definition present :: "string option \<Rightarrow> bool" where
  "present q = (case q of None \<Rightarrow> False | Some s \<Rightarrow> s \<noteq> [])"

definition opt_str :: "string option \<Rightarrow> jsval" where
  "opt_str q = (case q of None \<Rightarrow> JUndef | Some s \<Rightarrow> JStr s)"

text \<open>\<open>cachedUnitsData[u] || []\<close>\<close>

definition unit_rows :: "cache \<Rightarrow> string \<Rightarrow> row list" where
  "unit_rows c u = (case map_of c u of None \<Rightarrow> [] | Some rs \<Rightarrow> rs)"

definition units_of :: "string option \<Rightarrow> string list" where
  "units_of unitFilter =
     (case unitFilter of None \<Rightarrow> all_units | Some u \<Rightarrow> if u = [] then all_units else [u])"

text \<open>\<open>[...new Set(xs)]\<close>: the distinct elements in order of first occurrence.\<close>

definition uniq :: "'a list \<Rightarrow> 'a list" where
  "uniq xs = rev (remdups (rev xs))"

text \<open>\<open>.filter(Boolean)\<close> on a list of strings and nulls.\<close>

definition keep_strings :: "string option list \<Rightarrow> string list" where
  "keep_strings xs =
     concat (map (\<lambda>d. case d of None \<Rightarrow> [] | Some s \<Rightarrow> if s = [] then [] else [s]) xs)"

text \<open>The date a row contributes to \<open>availableDates\<close>.\<close>

definition available_date :: "host \<Rightarrow> row \<Rightarrow> string option" where
  "available_date h item =
     (let dateVal = date_val item
      in if \<not> truthy dateVal then None
         else (let d = new_Date h dateVal
               in if d = None then None else formatDateToYYYYMMDD h d))"

text \<open>
  \<open>.sort((a, b) => b - a)\<close>: a stable sort; \<open>a\<close> goes before \<open>b\<close> only when
  \<open>Number(b) - Number(a) < 0\<close>, and a \<open>NaN\<close> difference counts as equal.  (With shift
  values that do not convert to numbers the comparator is inconsistent and the language
  leaves the order to the implementation; the model then gives the order of an
  insertion sort.)
\<close>

definition shift_before :: "host \<Rightarrow> jsval \<Rightarrow> jsval \<Rightarrow> bool" where
  "shift_before h a b =
     (case to_number h a of None \<Rightarrow> False
      | Some x \<Rightarrow> (case to_number h b of None \<Rightarrow> False | Some y \<Rightarrow> y - x < 0))"

fun insert_shift :: "host \<Rightarrow> jsval \<Rightarrow> jsval list \<Rightarrow> jsval list" where
  "insert_shift h x [] = [x]"
| "insert_shift h x (y # ys) =
     (if shift_before h x y then x # y # ys else y # insert_shift h x ys)"

definition sort_shifts :: "host \<Rightarrow> jsval list \<Rightarrow> jsval list" where
  "sort_shifts h xs = foldl (\<lambda>acc x. insert_shift h x acc) [] xs"

record filters =
  targetDateStr :: "string option"
  targetShift :: jsval
  targetLatestShift :: jsval

text \<open>\<open>isDashboard ? (availableDates[1] || availableDates[0]) : availableDates[0]\<close>
  for a non-empty list of non-empty strings.\<close>

definition default_date :: "bool \<Rightarrow> string list \<Rightarrow> string option" where
  "default_date isDashboard availableDates =
     (case availableDates of [] \<Rightarrow> None
      | a # rest \<Rightarrow> (if isDashboard then (case rest of [] \<Rightarrow> Some a | b # _ \<Rightarrow> Some b)
                     else Some a))"

definition availableDates_of :: "host \<Rightarrow> row list \<Rightarrow> string list" where
  "availableDates_of h allRecords =
     rev (sort (keep_strings (uniq (map (available_date h) allRecords))))"

definition shiftsForDate_of :: "host \<Rightarrow> row list \<Rightarrow> string option \<Rightarrow> jsval list" where
  "shiftsForDate_of h allRecords tds =
     sort_shifts h (filter truthy (uniq (map shift_val
       (filter (\<lambda>item. formatDateToYYYYMMDD h (new_Date h (date_val item)) = tds)
          allRecords))))"

text \<open>Lines 237 to 280 of getQuantumData: the target date, the target shift and the
  latest shift of the target date.\<close>

definition resolve_filters ::
  "host \<Rightarrow> cache \<Rightarrow> string option \<Rightarrow> string option \<Rightarrow> string option \<Rightarrow> bool \<Rightarrow> filters" where
  "resolve_filters h c dateFilter shiftFilter unitFilter isDashboard =
     (let targetShift0 = (if shiftFilter = Some ''all'' then JUndef else opt_str shiftFilter);
          init = \<lparr>targetDateStr = dateFilter, targetShift = targetShift0,
                  targetLatestShift = JStr ''All''\<rparr>
      in if \<not> present dateFilter \<or> (\<not> truthy targetShift0 \<and> shiftFilter \<noteq> Some ''all'') then
           (let allRecords = concat (map (unit_rows c) (units_of unitFilter))
            in if allRecords \<noteq> [] then
                 (let availableDates = availableDates_of h allRecords;
                      tds = (if \<not> present dateFilter \<and> availableDates \<noteq> []
                             then default_date isDashboard availableDates else dateFilter)
                  in if present tds then
                       (let shiftsForDate = shiftsForDate_of h allRecords tds;
                            latestShiftForDate =
                              (case shiftsForDate of [] \<Rightarrow> JStr ''All'' | s # _ \<Rightarrow> s)
                        in \<lparr>targetDateStr = tds,
                            targetShift =
                              (if \<not> truthy targetShift0 \<and> shiftFilter \<noteq> Some ''all''
                               then latestShiftForDate else targetShift0),
                            targetLatestShift = latestShiftForDate\<rparr>)
                     else init\<lparr>targetDateStr := tds\<rparr>)
               else init)
         else init)"

text \<open>The predicate of \<open>jsonData.filter\<close> (lines 290 to 313).\<close>

definition keep_row :: "host \<Rightarrow> filters \<Rightarrow> string option \<Rightarrow> row \<Rightarrow> bool" where
  "keep_row h fs machineFilter item =
     (let dateVal = date_val item
      in if \<not> truthy dateVal then False
         else (case new_Date h dateVal of None \<Rightarrow> False
               | Some t \<Rightarrow>
                   if present (targetDateStr fs) \<and> Some (format_ymd h t) \<noteq> targetDateStr fs
                   then False
                   else if truthy (targetShift fs) \<and>
                           to_string h (shift_val item) \<noteq> to_string h (targetShift fs)
                   then False
                   else if present machineFilter \<and>
                           Some (to_string h (machine_val item)) \<noteq> machineFilter
                   then False
                   else if yarn_length h item < 300 then False
                   else True))"


section \<open>The aggregation engine of getQuantumData\<close>

text \<open>An object with one number per column of a fixed column list, and the loop
  \<open>cols.forEach(col => acc[col] += f(col))\<close> over it.\<close>

definition zero_cols :: "string list \<Rightarrow> (string \<times> rat) list" where
  "zero_cols cols = map (\<lambda>col. (col, 0)) cols"

definition add_cols :: "(string \<Rightarrow> rat) \<Rightarrow> (string \<times> rat) list \<Rightarrow> (string \<times> rat) list" where
  "add_cols f acc = map (\<lambda>(col, v). (col, v + f col)) acc"

text \<open>The accumulator \<open>{ sum, count, refLength }\<close> of one quality column.\<close>

record qacc =
  q_sum :: jsnum
  q_count :: nat
  q_refLength :: rat

definition zero_quality :: "(string \<times> qacc) list" where
  "zero_quality = map (\<lambda>col. (col, \<lparr>q_sum = Some 0, q_count = 0, q_refLength = 0\<rparr>)) qualityColumns"

definition add_quality :: "host \<Rightarrow> row \<Rightarrow> (string \<times> qacc) list \<Rightarrow> (string \<times> qacc) list" where
  "add_quality h cur acc =
     map (\<lambda>(col, s). (col, \<lparr>q_sum = js_add (q_sum s) (quality_val h cur col),
                             q_count = q_count s + 1,
                             q_refLength = q_refLength s + ip_ref_length h cur\<rparr>)) acc"

text \<open>\<open>if (!m[k]) m[k] = init; ... m[k] ...\<close>: the entry of key \<open>k\<close> is created at the end
  of the object when it is missing, then updated in place.\<close>

definition upsert :: "string \<Rightarrow> 'a \<Rightarrow> ('a \<Rightarrow> 'a) \<Rightarrow> (string \<times> 'a) list \<Rightarrow> (string \<times> 'a) list" where
  "upsert k init f m =
     (case map_of m k of
        None \<Rightarrow> m @ [(k, f init)]
      | Some _ \<Rightarrow> map (\<lambda>(k', v). if k' = k then (k', f v) else (k', v)) m)"

text \<open>
  \<open>Object.keys\<close>, \<open>Object.values\<close> and \<open>Object.entries\<close> enumerate the array-index keys
  (canonical decimal numerals below \<open>2^32 - 1\<close>) first, in ascending numeric order, then
  the other keys in order of creation.  Keys that name a member of \<open>Object.prototype\<close>
  (such as \<open>constructor\<close>) are assumed not to occur as article numbers, machine names or
  labels.
\<close>

definition digits_val :: "string \<Rightarrow> nat" where
  "digits_val k = foldl (\<lambda>n c. 10 * n + (of_char c - 48)) 0 k"

definition is_index_key :: "string \<Rightarrow> bool" where
  "is_index_key k =
     (k \<noteq> [] \<and> list_all (\<lambda>c. c \<in> set ''0123456789'') k \<and>
      (k = ''0'' \<or> hd k \<noteq> CHR ''0'') \<and> digits_val k < 4294967295)"

definition object_entries :: "(string \<times> 'a) list \<Rightarrow> (string \<times> 'a) list" where
  "object_entries m =
     sort_key (\<lambda>e. digits_val (fst e)) (filter (\<lambda>e. is_index_key (fst e)) m) @
     filter (\<lambda>e. \<not> is_index_key (fst e)) m"

definition object_values :: "(string \<times> 'a) list \<Rightarrow> 'a list" where
  "object_values m = map snd (object_entries m)"


record machine_acc =
  machineName :: jsval
  m_yarnLength :: rat
  m_cuts :: "(string \<times> rat) list"
  m_quality :: "(string \<times> qacc) list"
  m_totalAlarms :: rat
  m_alarmBreakdown :: "(string \<times> rat) list"

record article_acc =
  articleNumber :: jsval
  a_yarnLength :: rat
  a_cuts :: "(string \<times> rat) list"
  a_quality :: "(string \<times> qacc) list"
  a_totalAlarms :: rat
  a_alarmBreakdown :: "(string \<times> rat) list"
  machines :: "(string \<times> machine_acc) list"

text \<open>\<open>curr.ArticleNumber || curr.articlenumber || 'Unknown'\<close>\<close>

definition art_num :: "row \<Rightarrow> jsval" where
  "art_num cur = js_or (js_or (get cur ''ArticleNumber'') (get cur ''articlenumber'')) (JStr ''Unknown'')"

text \<open>\<open>curr.MachineName || curr.machinename || curr.Machine || curr.machine || 'Unknown'\<close>\<close>

definition mach_name :: "row \<Rightarrow> jsval" where
  "mach_name cur = js_or (machine_val cur) (JStr ''Unknown'')"

text \<open>\<open>alarmColumns.forEach(col => { ...; total += val })\<close> starting from \<open>start\<close>.\<close>

definition add_alarms :: "host \<Rightarrow> row \<Rightarrow> rat \<Rightarrow> rat" where
  "add_alarms h cur start = foldl (\<lambda>t col. t + col_num h cur col) start alarmColumns"

definition new_machine :: "jsval \<Rightarrow> machine_acc" where
  "new_machine machName =
     \<lparr>machineName = machName, m_yarnLength = 0, m_cuts = zero_cols cutColumns,
      m_quality = zero_quality, m_totalAlarms = 0, m_alarmBreakdown = zero_cols alarmColumns\<rparr>"

definition add_to_machine :: "host \<Rightarrow> row \<Rightarrow> machine_acc \<Rightarrow> machine_acc" where
  "add_to_machine h cur m =
     m\<lparr>m_yarnLength := m_yarnLength m + yarn_length h cur,
       m_cuts := add_cols (col_num h cur) (m_cuts m),
       m_quality := add_quality h cur (m_quality m),
       m_alarmBreakdown := add_cols (col_num h cur) (m_alarmBreakdown m),
       m_totalAlarms := add_alarms h cur (m_totalAlarms m)\<rparr>"

definition new_article :: "jsval \<Rightarrow> article_acc" where
  "new_article artNum =
     \<lparr>articleNumber = artNum, a_yarnLength = 0, a_cuts = zero_cols cutColumns,
      a_quality = zero_quality, a_totalAlarms = 0, a_alarmBreakdown = zero_cols alarmColumns,
      machines = []\<rparr>"

definition add_to_article :: "host \<Rightarrow> row \<Rightarrow> article_acc \<Rightarrow> article_acc" where
  "add_to_article h cur a =
     a\<lparr>a_yarnLength := a_yarnLength a + yarn_length h cur,
       a_cuts := add_cols (col_num h cur) (a_cuts a),
       a_quality := add_quality h cur (a_quality a),
       a_alarmBreakdown := add_cols (col_num h cur) (a_alarmBreakdown a),
       a_totalAlarms := add_alarms h cur (a_totalAlarms a),
       machines := upsert (to_string h (mach_name cur)) (new_machine (mach_name cur))
                     (add_to_machine h cur) (machines a)\<rparr>"

text \<open>\<open>articleMap\<close> after the loop of lines 399 to 488.\<close>

definition article_map :: "host \<Rightarrow> row list \<Rightarrow> (string \<times> article_acc) list" where
  "article_map h records =
     foldl (\<lambda>m cur. upsert (to_string h (art_num cur)) (new_article (art_num cur))
                        (add_to_article h cur) m) [] records"

text \<open>\<open>unitCuts\<close> and \<open>unitQuality\<close> after the loop of lines 375 to 396, and
  \<open>alarmBreakdown\<close> after the reduce of lines 353 to 362.\<close>

definition unit_cuts :: "host \<Rightarrow> row list \<Rightarrow> (string \<times> rat) list" where
  "unit_cuts h records = foldl (\<lambda>acc cur. add_cols (col_num h cur) acc) (zero_cols cutColumns) records"

definition unit_quality :: "host \<Rightarrow> row list \<Rightarrow> (string \<times> qacc) list" where
  "unit_quality h records = foldl (\<lambda>acc cur. add_quality h cur acc) zero_quality records"

definition unit_alarm_breakdown :: "host \<Rightarrow> row list \<Rightarrow> (string \<times> rat) list" where
  "unit_alarm_breakdown h records =
     foldl (\<lambda>acc cur. add_cols (col_num h cur) acc) (zero_cols alarmColumns) records"

definition total_faults :: "host \<Rightarrow> row list \<Rightarrow> rat" where
  "total_faults h records = foldl (\<lambda>acc cur. acc + yarn_faults h cur) 0 records"

definition total_length :: "host \<Rightarrow> row list \<Rightarrow> rat" where
  "total_length h records = foldl (\<lambda>acc cur. acc + yarn_length h cur) 0 records"

definition total_alarms :: "host \<Rightarrow> row list \<Rightarrow> rat" where
  "total_alarms h records = foldl (\<lambda>acc cur. acc + add_alarms h cur 0) 0 records"

text \<open>\<open>Number(curr.Cuts || curr.cuts || curr.TotalCuts || curr.totalcuts || 0) || 0\<close>\<close>

definition row_cuts :: "host \<Rightarrow> row \<Rightarrow> rat" where
  "row_cuts h cur =
     num_or0 (to_number h
       (js_or (js_or (js_or (js_or (get cur ''Cuts'') (get cur ''cuts'')) (get cur ''TotalCuts''))
          (get cur ''totalcuts'')) (JNum 0)))"

definition total_cuts :: "host \<Rightarrow> row list \<Rightarrow> rat" where
  "total_cuts h records = foldl (\<lambda>acc cur. acc + row_cuts h cur) 0 records"

text \<open>The rates: \<open>len > 0 ? ((v / len) * 100).toFixed(2) : '0.00'\<close> for every cut column,
  and the mean or the rate per reference length for every quality column.  An accumulator
  object holds exactly the columns of its column list, in the order of the list, so the
  loop over the column list is a map over the accumulator.\<close>

definition cut_rates :: "host \<Rightarrow> (string \<times> rat) list \<Rightarrow> rat \<Rightarrow> (string \<times> string) list" where
  "cut_rates h cuts len =
     map (\<lambda>(col, v). (col, if len > 0 then to_fixed2 h ((v / len) * 100) else ''0.00'')) cuts"

definition js_div :: "jsnum \<Rightarrow> rat \<Rightarrow> jsnum" where
  "js_div a d = (case a of None \<Rightarrow> None | Some x \<Rightarrow> Some (x / d))"

definition quality_final :: "host \<Rightarrow> string \<Rightarrow> jsnum \<Rightarrow> nat \<Rightarrow> rat \<Rightarrow> string" where
  "quality_final h col sm cnt ref =
     (if col = ''CVAvg'' \<or> col = ''HAvg''
      then (if cnt > 0 then js_to_fixed2 h (js_div sm (of_nat cnt)) else ''0.00'')
      else (if ref > 0 then js_to_fixed2 h (js_div sm ref) else ''0.00''))"

definition quality_vals :: "host \<Rightarrow> (string \<times> qacc) list \<Rightarrow> (string \<times> string) list" where
  "quality_vals h quality =
     map (\<lambda>(col, stats). (col, quality_final h col (q_sum stats) (q_count stats)
                                  (q_refLength stats))) quality"

record machine_out =
  mo_machineName :: jsval
  mo_cutsPer100km :: "(string \<times> string) list"
  mo_qualityVals :: "(string \<times> string) list"
  mo_totalAlarms :: rat
  mo_alarmBreakdown :: "(string \<times> rat) list"

record article_out =
  ao_articleNumber :: jsval
  ao_cutsPer100km :: "(string \<times> string) list"
  ao_qualityVals :: "(string \<times> string) list"
  ao_totalAlarms :: rat
  ao_alarmBreakdown :: "(string \<times> rat) list"
  ao_machines :: "machine_out list"

definition machine_result :: "host \<Rightarrow> machine_acc \<Rightarrow> machine_out" where
  "machine_result h mach =
     \<lparr>mo_machineName = machineName mach,
      mo_cutsPer100km = cut_rates h (m_cuts mach) (m_yarnLength mach),
      mo_qualityVals = quality_vals h (m_quality mach),
      mo_totalAlarms = m_totalAlarms mach,
      mo_alarmBreakdown = m_alarmBreakdown mach\<rparr>"

definition article_result :: "host \<Rightarrow> article_acc \<Rightarrow> article_out" where
  "article_result h art =
     \<lparr>ao_articleNumber = articleNumber art,
      ao_cutsPer100km = cut_rates h (a_cuts art) (a_yarnLength art),
      ao_qualityVals = quality_vals h (a_quality art),
      ao_totalAlarms = a_totalAlarms art,
      ao_alarmBreakdown = a_alarmBreakdown art,
      ao_machines = map (machine_result h) (object_values (machines art))\<rparr>"

text \<open>The object returned for a unit with cached rows (lines 558 to 572).\<close>

record unit_aggregate =
  unit_name :: string
  yarnFaults :: jsval
  totalAlarms :: rat
  alarmsPer1000km :: jsval
  alarmBreakdown :: "(string \<times> rat) list"
  totalCuts :: rat
  cutsPer100km :: jsval
  unitCuts :: "(string \<times> string) list"
  unitQuality :: "(string \<times> string) list"
  shiftStartTime :: "string option"
  shiftNumber :: jsval
  latestShift :: jsval
  articles :: "article_out list"

text \<open>A unit without cached rows gets
  \<open>{ unit, yarnFaults: 'N/A', shiftStartTime: null, articles: [], latestShift: 'All' }\<close>,
  which has no other field.\<close>

datatype unit_result = NoData string | Aggregate unit_aggregate

definition aggregate_unit :: "host \<Rightarrow> string \<Rightarrow> filters \<Rightarrow> row list \<Rightarrow> unit_aggregate" where
  "aggregate_unit h unit fs records =
     (let totalLength = total_length h records;
          nonempty = (records \<noteq> [])
      in \<lparr>unit_name = unit,
          yarnFaults = (if nonempty \<and> totalLength > 0
                        then JStr (to_fixed2 h ((total_faults h records / totalLength) * 100))
                        else JNum 0),
          totalAlarms = total_alarms h records,
          alarmsPer1000km = (if nonempty \<and> totalLength > 0
                             then JStr (to_fixed2 h ((total_alarms h records / totalLength) * 1000))
                             else JNum 0),
          alarmBreakdown = unit_alarm_breakdown h records,
          totalCuts = total_cuts h records,
          cutsPer100km = (if nonempty \<and> totalLength > 0
                          then JStr (to_fixed2 h ((total_cuts h records / totalLength) * 100))
                          else JNum 0),
          unitCuts = cut_rates h (unit_cuts h records) totalLength,
          unitQuality = quality_vals h (unit_quality h records),
          shiftStartTime = targetDateStr fs,
          shiftNumber = js_or (targetShift fs) (JStr ''All''),
          latestShift = targetLatestShift fs,
          articles = map (article_result h) (object_values (article_map h records))\<rparr>)"

text \<open>The callback of \<open>units.map\<close> (lines 283 to 573).\<close>

definition unit_result_of :: "host \<Rightarrow> cache \<Rightarrow> filters \<Rightarrow> string option \<Rightarrow> string \<Rightarrow> unit_result" where
  "unit_result_of h c fs machineFilter unit =
     (let jsonData = unit_rows c unit
      in if jsonData = [] then NoData unit
         else Aggregate (aggregate_unit h unit fs (filter (keep_row h fs machineFilter) jsonData)))"

definition getQuantumData ::
  "host \<Rightarrow> cache \<Rightarrow> string option \<Rightarrow> string option \<Rightarrow> string option \<Rightarrow> string option \<Rightarrow> bool
     \<Rightarrow> unit_result list" where
  "getQuantumData h c dateFilter shiftFilter unitFilter machineFilter isDashboard =
     (let fs = resolve_filters h c dateFilter shiftFilter unitFilter isDashboard
      in map (unit_result_of h c fs machineFilter) (units_of unitFilter))"






section \<open>The cache refresher\<close>

text \<open>The outcome of downloading and parsing one unit's sheet: the rows, or the error
  that the \<open>catch\<close> block logs.\<close>

datatype load_error = LoadError string

type_synonym outcome = "load_error + row list"

text \<open>\<open>newData[unit] = v\<close>\<close>

definition assign :: "string \<Rightarrow> 'a \<Rightarrow> (string \<times> 'a) list \<Rightarrow> (string \<times> 'a) list" where
  "assign k v m =
     (case map_of m k of
        None \<Rightarrow> m @ [(k, v)]
      | Some _ \<Rightarrow> map (\<lambda>(k', v'). if k' = k then (k', v) else (k', v')) m)"

text \<open>
  The state of one run of fetchAllUnitsData: the global \<open>cachedUnitsData\<close> that readers
  see, and the local \<open>newData\<close>.  A load that completes writes \<open>newData\<close> only; the
  assignment \<open>cachedUnitsData = newData\<close> after \<open>Promise.all\<close> is the one write to the
  global.  The six loads complete in some order \<open>order\<close>.
\<close>

record fetch_state =
  fs_cached :: cache
  fs_newData :: cache

definition load_done :: "(string \<Rightarrow> outcome) \<Rightarrow> fetch_state \<Rightarrow> string \<Rightarrow> fetch_state" where
  "load_done outcome st unit =
     st\<lparr>fs_newData :=
          assign unit (case outcome unit of Inr rows \<Rightarrow> rows
                       | Inl err \<Rightarrow> unit_rows (fs_cached st) unit) (fs_newData st)\<rparr>"

definition loads_done :: "cache \<Rightarrow> (string \<Rightarrow> outcome) \<Rightarrow> string list \<Rightarrow> fetch_state" where
  "loads_done cached outcome finished =
     foldl (load_done outcome) \<lparr>fs_cached = cached, fs_newData = []\<rparr> finished"

definition swap :: "fetch_state \<Rightarrow> fetch_state" where
  "swap st = st\<lparr>fs_cached := fs_newData st\<rparr>"

definition fetchAllUnitsData :: "cache \<Rightarrow> (string \<Rightarrow> outcome) \<Rightarrow> string list \<Rightarrow> cache" where
  "fetchAllUnitsData cached outcome order = fs_cached (swap (loads_done cached outcome order))"

record server =
  cachedUnitsData :: cache
  cachedLiveData :: "unit_result list option"
  lastFetchTime :: "int option"

definition updateQuantumLiveData ::
  "host \<Rightarrow> (string \<Rightarrow> outcome) \<Rightarrow> string list \<Rightarrow> int \<Rightarrow> server \<Rightarrow> server" where
  "updateQuantumLiveData h outcome order now s =
     (let newCache = fetchAllUnitsData (cachedUnitsData s) outcome order
      in \<lparr>cachedUnitsData = newCache,
          cachedLiveData = Some (getQuantumData h newCache None None None None False),
          lastFetchTime = Some now\<rparr>)"

section \<open>The trend engine\<close>




definition label_of :: "string \<Rightarrow> string \<Rightarrow> row \<Rightarrow> jsval" where
  "label_of firstColumn unit item =
     (if firstColumn = ''unit'' then JStr unit
      else if firstColumn = ''articlename'' then
        js_or (js_or (js_or (js_or (get item ''ArticleName'') (get item ''articlename''))
          (get item ''Article'')) (get item ''article'')) (JStr ''Unknown'')
      else if firstColumn = ''articlenumber'' then
        js_or (js_or (get item ''ArticleNumber'') (get item ''articlenumber'')) (JStr ''Unknown'')
      else if firstColumn = ''lotid'' then
        js_or (js_or (js_or (get item ''LotID'') (get item ''lotid'')) (get item ''LotId''))
          (JStr ''Unknown'')
      else if firstColumn = ''machinename'' then js_or (machine_val item) (JStr ''Unknown'')
      else JStr ''Unknown'')"

text \<open>\<open>s.replace(/\s/g, '')\<close> on ASCII white space.\<close>

definition strip_ws :: "string \<Rightarrow> string" where
  "strip_ws s = filter (\<lambda>c. c \<notin> set [CHR '' '', CHR 0x09, CHR 0x0A, CHR 0x0B, CHR 0x0C, CHR 0x0D]) s"

text \<open>The value \<open>val\<close> of the parameter for one row (lines 724 to 746).\<close>

definition trend_val :: "host \<Rightarrow> string \<Rightarrow> row \<Rightarrow> jsnum" where
  "trend_val h parameter item =
     (if parameter = ''IPI'' then ipi h item
      else if parameter = ''HSIPI'' then hsipi h item
      else if parameter = ''totalAlarms'' then
        Some (foldl (\<lambda>acc col. acc + col_num h item col) 0 alarmColumns)
      else (let targetParam = strip_ws (toLowerCase parameter);
                paramKey = find (\<lambda>k. strip_ws (toLowerCase k) = targetParam) (map fst item)
            in Some (num_or0 (to_number h
                 (get item (case paramKey of None \<Rightarrow> parameter
                            | Some k \<Rightarrow> if k = [] then parameter else k))))))"

text \<open>\<open>Number(item.YarnLength || item.yarnlength || 0) || 0\<close>\<close>

definition trend_yarn_length :: "host \<Rightarrow> row \<Rightarrow> rat" where
  "trend_yarn_length h item =
     num_or0 (to_number h (js_or (js_or (get item ''YarnLength'') (get item ''yarnlength'')) (JNum 0)))"

text \<open>The accumulator \<open>{ sum, refLength, yarnLength, count }\<close>; a (date, label) bucket
  has the same four fields and the per-machine accumulators.\<close>

record tacc =
  t_sum :: jsnum
  t_refLength :: rat
  t_yarnLength :: rat
  t_count :: nat

record bucket = tacc +
  b_machines :: "(string \<times> tacc) list"

definition new_tacc :: tacc where
  "new_tacc = \<lparr>t_sum = Some 0, t_refLength = 0, t_yarnLength = 0, t_count = 0\<rparr>"

definition new_bucket :: bucket where
  "new_bucket = \<lparr>t_sum = Some 0, t_refLength = 0, t_yarnLength = 0, t_count = 0, b_machines = []\<rparr>"

definition add_tacc :: "jsnum \<Rightarrow> rat \<Rightarrow> rat \<Rightarrow> 'a tacc_scheme \<Rightarrow> 'a tacc_scheme" where
  "add_tacc v ipRefLength yarnLength s =
     s\<lparr>t_sum := js_add (t_sum s) v,
       t_refLength := t_refLength s + ipRefLength,
       t_yarnLength := t_yarnLength s + yarnLength,
       t_count := t_count s + 1\<rparr>"

text \<open>\<open>set.add(x)\<close>\<close>

definition set_add :: "'a \<Rightarrow> 'a list \<Rightarrow> 'a list" where
  "set_add x xs = (if x \<in> set xs then xs else xs @ [x])"

record trend_state =
  trendMap :: "(string \<times> (string \<times> bucket) list) list"
  labels :: "jsval list"
  dates :: "string list"

text \<open>Whether a row takes part in the trend, with its date and label (lines 701 to 718).\<close>

definition trend_key ::
  "host \<Rightarrow> string \<Rightarrow> string list option \<Rightarrow> string \<times> row \<Rightarrow> (string \<times> jsval) option" where
  "trend_key h firstColumn filterValuesArray ui =
     (case ui of (unit, item) \<Rightarrow>
        (let dateVal = date_val item
         in if \<not> truthy dateVal then None
            else (case new_Date h dateVal of None \<Rightarrow> None
                  | Some t \<Rightarrow>
                      (let label = label_of firstColumn unit item
                       in if (case filterValuesArray of None \<Rightarrow> False
                              | Some arr \<Rightarrow> label \<notin> set (map JStr arr))
                          then None else Some (format_ymd h t, label)))))"

text \<open>The body of \<open>records.forEach\<close> (lines 700 to 770).\<close>

definition trend_step ::
  "host \<Rightarrow> string \<Rightarrow> string \<Rightarrow> string list option \<Rightarrow> trend_state \<Rightarrow> string \<times> row \<Rightarrow> trend_state" where
  "trend_step h firstColumn parameter filterValuesArray st ui =
     (case trend_key h firstColumn filterValuesArray ui of
        None \<Rightarrow> st
      | Some (dateStr, label) \<Rightarrow>
          (let item = snd ui;
               v = trend_val h parameter item;
               ipRefLength = ip_ref_length h item;
               yarnLength = trend_yarn_length h item;
               machineName = mach_name item
           in \<lparr>trendMap =
                 upsert dateStr []
                   (upsert (to_string h label) new_bucket
                      (\<lambda>b. (add_tacc v ipRefLength yarnLength b)
                             \<lparr>b_machines :=
                                upsert (to_string h machineName) new_tacc
                                  (add_tacc v ipRefLength yarnLength) (b_machines b)\<rparr>))
                   (trendMap st),
               labels = set_add label (labels st),
               dates = set_add dateStr (dates st)\<rparr>))"

text \<open>The rows the two nested \<open>forEach\<close> loops visit, each with its unit, in order.\<close>

definition trend_items :: "cache \<Rightarrow> string option \<Rightarrow> (string \<times> row) list" where
  "trend_items c unitFilter =
     concat (map (\<lambda>(unit, records).
                    if present unitFilter \<and> Some unit \<noteq> unitFilter then []
                    else map (Pair unit) records) (object_entries c))"

definition trend_fold ::
  "host \<Rightarrow> cache \<Rightarrow> string \<Rightarrow> string \<Rightarrow> string option \<Rightarrow> string list option \<Rightarrow> trend_state" where
  "trend_fold h c firstColumn parameter unitFilter filterValuesArray =
     foldl (trend_step h firstColumn parameter filterValuesArray)
       \<lparr>trendMap = [], labels = [], dates = []\<rparr> (trend_items c unitFilter)"















section \<open>Notions used to state the properties\<close>






text \<open>The rows pooled for the discovery of the default date and shift: \<open>allRecords\<close>.\<close>

definition pooled_rows :: "cache \<Rightarrow> string option \<Rightarrow> row list" where
  "pooled_rows c unitFilter = concat (map (unit_rows c) (units_of unitFilter))"

text \<open>The rows that enter the trend, each with its date and the property key of its
  label; the rows of one (date, label) bucket; and what accumulating rows leaves in a
  trend accumulator.\<close>

definition trend_rows ::
  "host \<Rightarrow> string \<Rightarrow> string list option \<Rightarrow> (string \<times> row) list \<Rightarrow> (string \<times> string \<times> row) list" where
  "trend_rows h firstColumn filterValuesArray items =
     concat (map (\<lambda>ui. case trend_key h firstColumn filterValuesArray ui of
                          None \<Rightarrow> []
                        | Some (d, l) \<Rightarrow> [(d, to_string h l, snd ui)]) items)"

definition bucket_rows ::
  "host \<Rightarrow> string \<Rightarrow> string list option \<Rightarrow> string \<Rightarrow> string \<Rightarrow> (string \<times> row) list \<Rightarrow> row list" where
  "bucket_rows h firstColumn filterValuesArray date lk items =
     map (\<lambda>x. snd (snd x))
       (filter (\<lambda>x. fst (snd x) = lk)
          (filter (\<lambda>x. fst x = date) (trend_rows h firstColumn filterValuesArray items)))"


text \<open>The update of a bucket by one row, as trend_step performs it.\<close>

definition bucket_step :: "host \<Rightarrow> string \<Rightarrow> row \<Rightarrow> bucket \<Rightarrow> bucket" where
  "bucket_step h parameter item b =
     (add_tacc (trend_val h parameter item) (ip_ref_length h item) (trend_yarn_length h item) b)
       \<lparr>b_machines :=
          upsert (to_string h (mach_name item)) new_tacc
            (add_tacc (trend_val h parameter item) (ip_ref_length h item)
               (trend_yarn_length h item)) (b_machines b)\<rparr>"

section \<open>Example data\<close>

text \<open>
  A host for the examples: the calendar is that of UTC (days are counted from the epoch
  and turned into a civil date), \<open>Number(s)\<close> is given for the empty string and for
  unsigned decimal numerals and is \<open>NaN\<close> on the other strings, and no example reaches the
  remaining built-ins.
\<close>

definition utc_ymd :: "int \<Rightarrow> int \<times> nat \<times> nat" where
  "utc_ymd t =
     (let z = t div 86400000 + 719468;
          era = z div 146097;
          doe = z mod 146097;
          yoe = (doe - doe div 1460 + doe div 36524 - doe div 146096) div 365;
          doy = doe - (365 * yoe + yoe div 4 - yoe div 100);
          mp = (5 * doy + 2) div 153;
          d = doy - (153 * mp + 2) div 5 + 1;
          m = (if mp < 10 then mp + 3 else mp - 9)
      in (yoe + era * 400 + (if m \<le> 2 then 1 else 0), nat m, nat d))"

definition host0 :: host where
  "host0 =
     \<lparr>str_to_num = (\<lambda>s. if list_all (\<lambda>c. c \<in> set ''0123456789'') s
                          then Some (of_nat (digits_val s)) else None),
      frac_to_str = (\<lambda>x. []),
      date_parse = (\<lambda>s. None),
      local_ymd = utc_ymd,
      date_to_str = (\<lambda>t. [])\<rparr>"

text \<open>Midnight UTC of 1, 2 and 3 January 2024.\<close>

definition jan1 :: int where "jan1 = 1704067200000"
definition jan2 :: int where "jan2 = 1704153600000"
definition jan3 :: int where "jan3 = 1704240000000"

text \<open>A refresh in which the load of U-3 fails and the other five loads succeed.\<close>

definition old_row :: row where
  "old_row = [(''ShiftStartTime'', JDate jan1), (''ShiftNumber'', JNum 1), (''YarnLength'', JNum 1000)]"

definition new_row :: row where
  "new_row = [(''ShiftStartTime'', JDate jan2), (''ShiftNumber'', JNum 1), (''YarnLength'', JNum 2000)]"

definition server0 :: server where
  "server0 =
     \<lparr>cachedUnitsData = [(''U-1'', [old_row]), (''U-3'', [old_row, old_row])],
      cachedLiveData = None, lastFetchTime = None\<rparr>"

definition outcome0 :: "string \<Rightarrow> outcome" where
  "outcome0 unit = (if unit = ''U-3'' then Inl (LoadError ''download failed'') else Inr [new_row])"








text \<open>Rows dated 1, 2 and 3 January 2024, spread over two units, with shifts 1 to 3.\<close>

definition day_row :: "int \<Rightarrow> rat \<Rightarrow> row" where
  "day_row t shift = [(''ShiftStartTime'', JDate t), (''ShiftNumber'', JNum shift),
     (''YarnLength'', JNum 1000), (''YarnFaults'', JNum 2)]"

definition date_cache :: cache where
  "date_cache = [(''U-1'', [day_row jan1 1, day_row jan3 1, day_row jan3 3]),
                 (''U-2'', [day_row jan2 2, day_row jan3 2])]"





section \<open>Lookup in objects\<close>

lemma map_of_update_key:
  "map_of (map (\<lambda>(k', v). if k' = k then (k', f v) else (k', v)) m) k' =
     (if k' = k then map_option f (map_of m k) else map_of m k')"
  by (induction m) auto

lemma map_of_assign:
  "map_of (assign k v m) k' = (if k' = k then Some v else map_of m k')"
  by (cases "map_of m k")
    (simp_all add: assign_def map_add_def map_of_update_key split: option.splits)


lemma map_of_upsert:
  "map_of (upsert k i f m) k' =
     (if k' = k then Some (f (case map_of m k of None \<Rightarrow> i | Some a \<Rightarrow> a)) else map_of m k')"
  by (cases "map_of m k")
    (simp_all add: upsert_def map_add_def map_of_update_key split: option.splits)

lemma keys_update_key:
  "map fst (map (\<lambda>(k', v). if k' = k then (k', f v) else (k', v)) m) = map fst m"
  by (induction m) auto



text \<open>Grouping rows into an object by a key.\<close>

lemma group_fold_lookup:
  "map_of (foldl (\<lambda>m r. upsert (key r) (init r) (step r) m) m0 rs) k =
     (case filter (\<lambda>r. key r = k) rs of
        [] \<Rightarrow> map_of m0 k
      | r # rs' \<Rightarrow> Some (foldl (\<lambda>a r. step r a)
                         (case map_of m0 k of None \<Rightarrow> init r | Some a \<Rightarrow> a) (r # rs')))"
proof (induction rs arbitrary: m0)
  case Nil
  show ?case by simp
next
  case (Cons r rs)
  show ?case
    by (simp add: Cons.IH map_of_upsert split: list.splits option.splits)
qed





section \<open>The cache refresher keeps the snapshot of a unit whose load fails\<close>

lemma loads_done_cached [simp]: "fs_cached (loads_done c outcome xs) = c"
  unfolding loads_done_def
  by (induction xs rule: rev_induct) (simp_all add: load_done_def)

lemma loads_done_newData:
  "map_of (fs_newData (loads_done c outcome xs)) v =
     (if v \<in> set xs
      then Some (case outcome v of Inr rows \<Rightarrow> rows | Inl err \<Rightarrow> unit_rows c v)
      else None)"
proof (induction xs rule: rev_induct)
  case Nil
  show ?case by (simp add: loads_done_def)
next
  case (snoc x xs)
  have step: "loads_done c outcome (xs @ [x]) = load_done outcome (loads_done c outcome xs) x"
    by (simp add: loads_done_def)
  show ?case
    using snoc by (simp add: step load_done_def map_of_assign split: sum.splits)
qed

text \<open>
  Claim C9.  Take a refresh (updateQuantumLiveData at time \<open>now\<close>) whose six loads complete
  in any order and in which the load of unit \<open>u\<close> fails.  Afterwards the cache holds for
  \<open>u\<close> the rows it held before (\<open>cachedUnitsData[u] || []\<close>, so the prior snapshot itself
  when there was one) and for every unit whose load succeeded the rows just loaded; while
  the loads complete, however many have, the global cache is the old one; the new cache is
  the composite \<open>newData\<close> assigned in one step; and \<open>lastFetchTime\<close> is \<open>now\<close>.
\<close>

theorem refresh_keeps_failed_unit:
  assumes order: "set order = set all_units"
    and u: "u \<in> set all_units"
    and fails: "outcome u = Inl err"
  shows "map_of (cachedUnitsData (updateQuantumLiveData h outcome order now s)) u
           = Some (unit_rows (cachedUnitsData s) u)
       \<and> (\<forall>old. map_of (cachedUnitsData s) u = Some old \<longrightarrow>
            map_of (cachedUnitsData (updateQuantumLiveData h outcome order now s)) u = Some old)
       \<and> (\<forall>v rows. v \<in> set all_units \<and> outcome v = Inr rows \<longrightarrow>
            map_of (cachedUnitsData (updateQuantumLiveData h outcome order now s)) v = Some rows)
       \<and> (\<forall>n. fs_cached (loads_done (cachedUnitsData s) outcome (take n order)) = cachedUnitsData s)
       \<and> cachedUnitsData (updateQuantumLiveData h outcome order now s)
           = fs_newData (loads_done (cachedUnitsData s) outcome order)
       \<and> lastFetchTime (updateQuantumLiveData h outcome order now s) = Some now"
  using assms
  by (auto simp add: updateQuantumLiveData_def Let_def fetchAllUnitsData_def swap_def
      loads_done_newData unit_rows_def)

theorem refresh_keeps_failed_unit_witness:
  "set all_units = set all_units \<and> ''U-3'' \<in> set all_units
     \<and> outcome0 ''U-3'' = Inl (LoadError ''download failed'')
     \<and> map_of (cachedUnitsData (updateQuantumLiveData host0 outcome0 all_units 1000 server0)) ''U-3''
         = Some [old_row, old_row]
     \<and> map_of (cachedUnitsData (updateQuantumLiveData host0 outcome0 all_units 1000 server0)) ''U-1''
         = Some [new_row]
     \<and> lastFetchTime (updateQuantumLiveData host0 outcome0 all_units 1000 server0) = Some 1000"
proof -
  have u: "''U-3'' \<in> set all_units" and v: "''U-1'' \<in> set all_units"
    by (simp_all add: all_units_def)
  have f: "outcome0 ''U-3'' = Inl (LoadError ''download failed'')"
    and g: "outcome0 ''U-1'' = Inr [new_row]"
    by (simp_all add: outcome0_def)
  have old: "unit_rows (cachedUnitsData server0) ''U-3'' = [old_row, old_row]"
    by (simp add: unit_rows_def server0_def)
  have o: "set all_units = set all_units" by simp
  note th = refresh_keeps_failed_unit
         [where order = all_units and h = host0 and now = 1000 and s = server0
            and outcome = outcome0 and u = "''U-3''", OF o u f]
  from th old
  have a: "map_of (cachedUnitsData (updateQuantumLiveData host0 outcome0 all_units 1000 server0)) ''U-3''
             = Some [old_row, old_row]"
    by metis
  from th v g
  have b: "map_of (cachedUnitsData (updateQuantumLiveData host0 outcome0 all_units 1000 server0)) ''U-1''
             = Some [new_row]"
    by blast
  from th
  have c: "lastFetchTime (updateQuantumLiveData host0 outcome0 all_units 1000 server0) = Some 1000"
    by blast
  from a b c u f show ?thesis by blast
qed

section \<open>The accumulators of the aggregation engine in closed form\<close>





lemma set_object_entries [simp]: "set (object_entries m) = set m"
  by (auto simp add: object_entries_def)




















section \<open>Rollup conservation of the cut columns\<close>










section \<open>Every filtered row counts in every quality accumulator\<close>




section \<open>The yarn-fault rate of a unit\<close>










section \<open>Units without rows\<close>

lemma empty_folds [simp]:
  "total_length h [] = 0" "total_faults h [] = 0" "total_alarms h [] = 0" "total_cuts h [] = 0"
  "unit_cuts h [] = zero_cols cutColumns" "unit_quality h [] = zero_quality"
  "unit_alarm_breakdown h [] = zero_cols alarmColumns" "article_map h [] = []"
  by (simp_all add: total_length_def total_faults_def total_alarms_def total_cuts_def
      unit_cuts_def unit_quality_def unit_alarm_breakdown_def article_map_def)

lemma object_values_Nil [simp]: "object_values [] = []"
  by (simp add: object_values_def object_entries_def)





section \<open>The default target date\<close>

lemma set_uniq [simp]: "set (uniq xs) = set xs"
  by (simp add: uniq_def)

lemma distinct_uniq [simp]: "distinct (uniq xs)"
  by (simp add: uniq_def)

lemma set_keep_strings: "set (keep_strings xs) = {s. s \<noteq> [] \<and> Some s \<in> set xs}"
  by (induction xs) (auto simp add: keep_strings_def split: option.splits)

lemma distinct_keep_strings: "distinct xs \<Longrightarrow> distinct (keep_strings xs)"
proof (induction xs)
  case Nil
  show ?case by (simp add: keep_strings_def)
next
  case (Cons x xs)
  have "keep_strings (x # xs)
          = (case x of None \<Rightarrow> [] | Some s \<Rightarrow> if s = [] then [] else [s]) @ keep_strings xs"
    by (simp add: keep_strings_def)
  with Cons show ?case
    by (auto simp add: set_keep_strings split: option.splits)
qed

lemma availableDates_set:
  "set (availableDates_of h rs) = set (keep_strings (map (available_date h) rs))"
  by (simp add: availableDates_of_def set_keep_strings)

lemma availableDates_distinct: "distinct (availableDates_of h rs)"
  by (simp add: availableDates_of_def distinct_keep_strings)

lemma availableDates_descending: "sorted_wrt (\<lambda>x y. y < x) (availableDates_of h rs)"
proof -
  have "sorted_wrt (<) (sort (keep_strings (uniq (map (available_date h) rs))))"
    by (simp add: strict_sorted_iff distinct_keep_strings)
  then show ?thesis
    by (simp add: availableDates_of_def sorted_wrt_rev)
qed

lemma availableDates_nonempty_strings: "s \<in> set (availableDates_of h rs) \<Longrightarrow> s \<noteq> []"
  by (simp add: availableDates_set set_keep_strings)

lemma availableDates_Nil [simp]: "availableDates_of h [] = []"
  by (simp add: availableDates_of_def keep_strings_def uniq_def)

lemma resolve_filters_default_date:
  assumes absent: "\<not> present dateFilter"
    and av: "availableDates_of h (pooled_rows c unitFilter) = a # rest"
  shows "targetDateStr (resolve_filters h c dateFilter shiftFilter unitFilter isDashboard)
           = default_date isDashboard (a # rest)"
proof -
  have "pooled_rows c unitFilter \<noteq> []"
    using av by (cases "pooled_rows c unitFilter") auto
  then have ne: "concat (map (unit_rows c) (units_of unitFilter)) \<noteq> []"
    unfolding pooled_rows_def .
  have "\<forall>s \<in> set (a # rest). s \<noteq> []"
    using availableDates_nonempty_strings [of _ h "pooled_rows c unitFilter"] av by auto
  then have p: "present (default_date isDashboard (a # rest))"
    by (cases rest) (auto simp add: default_date_def present_def)
  show ?thesis
    using absent ne p av
    by (simp add: resolve_filters_def Let_def pooled_rows_def)
qed


text \<open>The date strings of years of four digits are ordered as the dates are.\<close>

lemma digit_cases: "(n::nat) < 10 \<Longrightarrow> n \<in> {0, 1, 2, 3, 4, 5, 6, 7, 8, 9}"
  by auto

lemma digit_code: "n < 10 \<Longrightarrow> of_char (''0123456789'' ! n) = 48 + n"
  by (drule digit_cases) auto

lemma digit_less: "a < 10 \<Longrightarrow> b < 10 \<Longrightarrow> (''0123456789'' ! a < ''0123456789'' ! b) = (a < b)"
  by (simp add: less_char_def digit_code)

lemma digit_eq: "a < 10 \<Longrightarrow> b < 10 \<Longrightarrow> (''0123456789'' ! a = ''0123456789'' ! b) = (a = b)"
  by (metis digit_code add_left_cancel)

lemma show_nat_small: "n < 10 \<Longrightarrow> show_nat n = [''0123456789'' ! n]"
  by (simp add: show_nat.simps [of n])

lemma show_nat_step: "\<not> n < 10 \<Longrightarrow> show_nat n = show_nat (n div 10) @ [''0123456789'' ! (n mod 10)]"
  by (simp add: show_nat.simps [of n])

lemma pad2_digits: "n < 100 \<Longrightarrow> pad2 n = [''0123456789'' ! (n div 10), ''0123456789'' ! (n mod 10)]"
proof (cases "n < 10")
  case True
  then show ?thesis by (simp add: pad2_def show_nat_small)
next
  case False
  assume "n < 100"
  then have "n div 10 < 10" by arith
  with False show ?thesis by (simp add: pad2_def show_nat_step show_nat_small)
qed

text \<open>Two digits followed by anything compare as the number, then the rest.\<close>

lemma two_digits_less:
  assumes "n < 100" "n' < 100"
  shows "(pad2 n @ xs < pad2 n' @ ys) = (n < n' \<or> n = n' \<and> xs < ys)"
proof -
  define a b a' b' where "a = n div 10" and "b = n mod 10" and "a' = n' div 10" and "b' = n' mod 10"
  have d: "a < 10" "b < 10" "a' < 10" "b' < 10"
    using assms unfolding a_def b_def a'_def b'_def by arith+
  have n: "n = 10 * a + b" and n': "n' = 10 * a' + b'"
    unfolding a_def b_def a'_def b'_def by simp_all
  have p: "pad2 n = [''0123456789'' ! a, ''0123456789'' ! b]"
    and p': "pad2 n' = [''0123456789'' ! a', ''0123456789'' ! b']"
    unfolding a_def b_def a'_def b'_def using assms by (simp_all add: pad2_digits)
  have "(pad2 n @ xs < pad2 n' @ ys)
          = (a < a' \<or> a = a' \<and> (b < b' \<or> b = b' \<and> xs < ys))"
    unfolding p p' using d by (simp add: digit_less digit_eq)
  also have "\<dots> = (n < n' \<or> n = n' \<and> xs < ys)"
    unfolding n n' using d by arith
  finally show ?thesis .
qed

lemma show_nat_4:
  assumes "1000 \<le> n" "n < 10000"
  shows "show_nat n = [''0123456789'' ! (n div 1000), ''0123456789'' ! (n div 100 mod 10),
                       ''0123456789'' ! (n div 10 mod 10), ''0123456789'' ! (n mod 10)]"
proof -
  have n1: "\<not> n < 10" and n2: "\<not> n div 10 < 10" and n3: "\<not> n div 100 < 10"
    and n4: "n div 1000 < 10"
    using assms by arith+
  have e1: "n div 10 div 10 = n div 100" and e2: "n div 100 div 10 = n div 1000"
    by (simp_all add: div_mult2_eq [symmetric])
  have a: "show_nat n = show_nat (n div 10) @ [''0123456789'' ! (n mod 10)]"
    using n1 by (rule show_nat_step)
  have b: "show_nat (n div 10) = show_nat (n div 100) @ [''0123456789'' ! (n div 10 mod 10)]"
    using show_nat_step [OF n2] by (simp only: e1)
  have c: "show_nat (n div 100) = show_nat (n div 1000) @ [''0123456789'' ! (n div 100 mod 10)]"
    using show_nat_step [OF n3] by (simp only: e2)
  have d: "show_nat (n div 1000) = [''0123456789'' ! (n div 1000)]"
    using n4 by (rule show_nat_small)
  show ?thesis by (simp only: a b c d append.simps)
qed

lemma year_digits:
  assumes "1000 \<le> n" "n < 10000"
  shows "show_nat n = pad2 (n div 100) @ pad2 (n mod 100)"
proof -
  have b1: "n div 100 < 100"
    using assms(2) by (intro less_mult_imp_div_less) simp
  have b2: "n mod 100 < 100" by simp
  have e1: "n div 100 div 10 = n div 1000"
    by (simp add: div_mult2_eq [symmetric])
  have m: "n mod 100 = n mod 10 + 10 * (n div 10 mod 10)"
    using mod_mult2_eq [of n 10 10] by simp
  have e3: "n mod 100 div 10 = n div 10 mod 10"
    by (simp add: m)
  have e4: "n mod 100 mod 10 = n mod 10"
    by (simp add: m)
  show ?thesis
    by (simp only: show_nat_4 [OF assms] pad2_digits [OF b1] pad2_digits [OF b2] e1 e3 e4 append.simps)
qed

lemma year_less:
  assumes "1000 \<le> n" "n < 10000" "1000 \<le> n'" "n' < 10000"
  shows "(show_nat n @ xs < show_nat n' @ ys) = (n < n' \<or> n = n' \<and> xs < ys)"
proof -
  define q r q' r' where "q = n div 100" and "r = n mod 100" and "q' = n' div 100" and "r' = n' mod 100"
  have n: "n = 100 * q + r" and n': "n' = 100 * q' + r'"
    unfolding q_def r_def q'_def r'_def by simp_all
  have b: "q < 100" "r < 100" "q' < 100" "r' < 100"
    using assms unfolding q_def r_def q'_def r'_def
    by (simp_all add: less_mult_imp_div_less)
  have y: "show_nat n = pad2 q @ pad2 r" and y': "show_nat n' = pad2 q' @ pad2 r'"
    unfolding q_def r_def q'_def r'_def using assms by (simp_all add: year_digits)
  have "(show_nat n @ xs < show_nat n' @ ys)
          = (pad2 q @ (pad2 r @ xs) < pad2 q' @ (pad2 r' @ ys))"
    unfolding y y' by simp
  also have "\<dots> = (q < q' \<or> q = q' \<and> (r < r' \<or> r = r' \<and> xs < ys))"
    by (simp only: two_digits_less [OF b(1) b(3)] two_digits_less [OF b(2) b(4)])
  also have "\<dots> = (n < n' \<or> n = n' \<and> xs < ys)"
    unfolding n n' using b by arith
  finally show ?thesis .
qed

lemma ymd_string_less:
  assumes "1000 \<le> y" "y < 10000" "1000 \<le> y'" "y' < 10000"
    and "m < 100" "m' < 100" "d < 100" "d' < 100"
  shows "(show_int y @ ''-'' @ pad2 m @ ''-'' @ pad2 d < show_int y' @ ''-'' @ pad2 m' @ ''-'' @ pad2 d')
           = (y < y' \<or> y = y' \<and> (m < m' \<or> m = m' \<and> d < d'))"
proof -
  have y: "1000 \<le> nat y" "nat y < 10000" "1000 \<le> nat y'" "nat y' < 10000"
    using assms by simp_all
  have s: "show_int y = show_nat (nat y)" "show_int y' = show_nat (nat y')"
    using assms by (simp_all add: show_int_def)
  have t: "(pad2 d < pad2 d') = (d < d')"
    using two_digits_less [OF assms(7) assms(8), of "[]" "[]"] by simp
  have u: "(pad2 m @ ''-'' @ pad2 d < pad2 m' @ ''-'' @ pad2 d') = (m < m' \<or> m = m' \<and> d < d')"
    using t by (simp add: two_digits_less [OF assms(5) assms(6)])
  have "(show_nat (nat y) @ (''-'' @ pad2 m @ ''-'' @ pad2 d)
           < show_nat (nat y') @ (''-'' @ pad2 m' @ ''-'' @ pad2 d'))
          = (nat y < nat y' \<or> nat y = nat y' \<and> (m < m' \<or> m = m' \<and> d < d'))"
    using u by (simp add: year_less [OF y])
  moreover have "(nat y < nat y') = (y < y')" "(nat y = nat y') = (y = y')"
    using assms by auto
  ultimately show ?thesis by (simp only: s)
qed

lemma format_ymd_less:
  assumes "local_ymd h t = (y, m, d)" "local_ymd h t' = (y', m', d')"
    and "1000 \<le> y" "y < 10000" "1000 \<le> y'" "y' < 10000"
    and "m < 100" "m' < 100" "d < 100" "d' < 100"
  shows "(format_ymd h t < format_ymd h t') = (y < y' \<or> y = y' \<and> (m < m' \<or> m = m' \<and> d < d'))"
  using ymd_string_less [OF assms(3-10)] by (simp add: format_ymd_def assms(1,2))

text \<open>
  Claim C6.  Let the date filter be absent and let the rows pooled from the units in
  question have at least one date, so that \<open>availableDates\<close> is \<open>a # rest\<close>.  This list holds
  the distinct dates of the pooled rows, each once, in descending order of the date
  strings: \<open>a\<close> is the most recent date and the head of \<open>rest\<close> the most recent of the
  others.  The target date that getQuantumData resolves is \<open>a\<close> when the dashboard mode
  is off; in dashboard mode it is the second date, and \<open>a\<close> when there is no second date.
  The date strings \<open>YYYY-MM-DD\<close> of two time values whose years have four digits are
  ordered as their calendar dates (year, then month, then day) are.
\<close>

theorem default_target_date:
  assumes absent: "\<not> present dateFilter"
    and av: "availableDates_of h (pooled_rows c unitFilter) = a # rest"
  shows "targetDateStr (resolve_filters h c dateFilter shiftFilter unitFilter isDashboard)
           = (if isDashboard then (case rest of [] \<Rightarrow> Some a | b # _ \<Rightarrow> Some b) else Some a)
       \<and> set (a # rest) = {s. s \<noteq> [] \<and> Some s \<in> available_date h ` set (pooled_rows c unitFilter)}
       \<and> distinct (a # rest)
       \<and> (\<forall>d \<in> set rest. d < a)
       \<and> (case rest of [] \<Rightarrow> True | b # others \<Rightarrow> \<forall>d \<in> set others. d < b)
       \<and> (\<forall>t t' y m d y' m' d'.
             local_ymd h t = (y, m, d) \<and> local_ymd h t' = (y', m', d')
             \<and> 1000 \<le> y \<and> y < 10000 \<and> 1000 \<le> y' \<and> y' < 10000
             \<and> m < 100 \<and> m' < 100 \<and> d < 100 \<and> d' < 100
             \<longrightarrow> (format_ymd h t < format_ymd h t')
                   = (y < y' \<or> y = y' \<and> (m < m' \<or> m = m' \<and> d < d')))"
proof (intro conjI)
  show "targetDateStr (resolve_filters h c dateFilter shiftFilter unitFilter isDashboard)
           = (if isDashboard then (case rest of [] \<Rightarrow> Some a | b # _ \<Rightarrow> Some b) else Some a)"
    using resolve_filters_default_date [OF absent av]
    by (simp add: default_date_def split: list.splits)
next
  show "set (a # rest) = {s. s \<noteq> [] \<and> Some s \<in> available_date h ` set (pooled_rows c unitFilter)}"
    using availableDates_set [of h "pooled_rows c unitFilter"]
    by (simp only: av set_keep_strings set_map)
next
  show "distinct (a # rest)"
    using availableDates_distinct [of h "pooled_rows c unitFilter"] by (simp only: av)
next
  have d: "sorted_wrt (\<lambda>x y. y < x) (a # rest)"
    using availableDates_descending [of h "pooled_rows c unitFilter"] by (simp only: av)
  then show "\<forall>d \<in> set rest. d < a" by simp
  from d show "case rest of [] \<Rightarrow> True | b # others \<Rightarrow> \<forall>d \<in> set others. d < b"
    by (cases rest) simp_all
next
  show "\<forall>t t' y m d y' m' d'.
             local_ymd h t = (y, m, d) \<and> local_ymd h t' = (y', m', d')
             \<and> 1000 \<le> y \<and> y < 10000 \<and> 1000 \<le> y' \<and> y' < 10000
             \<and> m < 100 \<and> m' < 100 \<and> d < 100 \<and> d' < 100
             \<longrightarrow> (format_ymd h t < format_ymd h t')
                   = (y < y' \<or> y = y' \<and> (m < m' \<or> m = m' \<and> d < d'))"
    using format_ymd_less [of h] by blast
qed

theorem default_target_date_witness:
  "\<not> present None
     \<and> availableDates_of host0 (pooled_rows date_cache None)
         = [''2024-01-03'', ''2024-01-02'', ''2024-01-01'']
     \<and> targetDateStr (resolve_filters host0 date_cache None None None True) = Some ''2024-01-02''
     \<and> targetDateStr (resolve_filters host0 date_cache None None None False) = Some ''2024-01-03''
     \<and> local_ymd host0 jan1 = (2024, 1, 1) \<and> local_ymd host0 jan3 = (2024, 1, 3)
     \<and> format_ymd host0 jan1 < format_ymd host0 jan3"
proof -
  have p: "\<not> present None" by (simp add: present_def)
  have av: "availableDates_of host0 (pooled_rows date_cache None)
              = [''2024-01-03'', ''2024-01-02'', ''2024-01-01'']"
    by code_simp
  note th = default_target_date [OF p av]
  from th [of None True]
  have "targetDateStr (resolve_filters host0 date_cache None None None True)
          = (if True then (case [''2024-01-02'', ''2024-01-01''] of [] \<Rightarrow> Some ''2024-01-03''
                           | b # _ \<Rightarrow> Some b) else Some ''2024-01-03'')"
    by (rule conjunct1)
  then have t: "targetDateStr (resolve_filters host0 date_cache None None None True)
                  = Some ''2024-01-02''"
    by simp
  from th [of None False]
  have "targetDateStr (resolve_filters host0 date_cache None None None False)
          = (if False then (case [''2024-01-02'', ''2024-01-01''] of [] \<Rightarrow> Some ''2024-01-03''
                            | b # _ \<Rightarrow> Some b) else Some ''2024-01-03'')"
    by (rule conjunct1)
  then have f: "targetDateStr (resolve_filters host0 date_cache None None None False)
                  = Some ''2024-01-03''"
    by simp
  have d1: "local_ymd host0 jan1 = (2024, 1, 1)" and d3: "local_ymd host0 jan3 = (2024, 1, 3)"
    by code_simp+
  from th [of None True]
  have "\<forall>t t' y m d y' m' d'.
             local_ymd host0 t = (y, m, d) \<and> local_ymd host0 t' = (y', m', d')
             \<and> 1000 \<le> y \<and> y < 10000 \<and> 1000 \<le> y' \<and> y' < 10000
             \<and> m < 100 \<and> m' < 100 \<and> d < 100 \<and> d' < 100
             \<longrightarrow> (format_ymd host0 t < format_ymd host0 t')
                   = (y < y' \<or> y = y' \<and> (m < m' \<or> m = m' \<and> d < d'))"
    by blast
  from this [rule_format, of jan1 2024 1 1 jan3 2024 1 3] d1 d3
  have o: "format_ymd host0 jan1 < format_ymd host0 jan3"
    by simp
  from p av t f d1 d3 o show ?thesis by blast
qed

section \<open>The latest shift of the target date\<close>

lemma set_insert_shift [simp]: "set (insert_shift h x ys) = insert x (set ys)"
  by (induction ys) auto

















section \<open>The buckets and the final values of the trend engine\<close>

lemma trendMap_step:
  "trendMap (trend_step h fc par fva st ui) =
     foldl (\<lambda>tm x. upsert (fst x) [] (upsert (fst (snd x)) new_bucket (bucket_step h par (snd (snd x)))) tm)
       (trendMap st) (trend_rows h fc fva [ui])"
  by (simp add: trend_step_def trend_rows_def bucket_step_def [abs_def] Let_def split: option.splits)

lemma trend_rows_Cons:
  "trend_rows h fc fva (ui # items) = trend_rows h fc fva [ui] @ trend_rows h fc fva items"
  by (simp add: trend_rows_def)

lemma trendMap_fold:
  "trendMap (foldl (trend_step h fc par fva) st items) =
     foldl (\<lambda>tm x. upsert (fst x) [] (upsert (fst (snd x)) new_bucket (bucket_step h par (snd (snd x)))) tm)
       (trendMap st) (trend_rows h fc fva items)"
proof (induction items arbitrary: st)
  case Nil
  show ?case by (simp add: trend_rows_def)
next
  case (Cons ui items)
  show ?case
    by (simp add: Cons.IH trendMap_step trend_rows_Cons [of h fc fva ui items])
qed




lemma group_fold_lookup_Nil:
  "map_of (foldl (\<lambda>m r. upsert (key r) (init r) (step r) m) [] rs) k =
     (case filter (\<lambda>r. key r = k) rs of
        [] \<Rightarrow> None
      | r # rs' \<Rightarrow> Some (foldl (\<lambda>a r. step r a) (init r) (r # rs')))"
  using group_fold_lookup [of key init step "[]" rs k]
  by (simp split: list.splits)






lemma trend_bucket_exists:
  assumes "bucket_rows h fc fva date lk (trend_items c uf) \<noteq> []"
  shows "\<exists>bs b. map_of (trendMap (trend_fold h c fc par uf fva)) date = Some bs
                \<and> (lk, b) \<in> set bs"
proof -
  let ?TR = "trend_rows h fc fva (trend_items c uf)"
  let ?TRd = "filter (\<lambda>x. fst x = date) ?TR"
  let ?inner = "\<lambda>x. upsert (fst (snd x)) new_bucket (bucket_step h par (snd (snd x)))"
  have ne: "filter (\<lambda>x. fst (snd x) = lk) ?TRd \<noteq> []"
    using assms by (simp add: bucket_rows_def)
  have ned: "?TRd \<noteq> []"
  proof
    assume "?TRd = []"
    then have "filter (\<lambda>x. fst (snd x) = lk) ?TRd = []" by (simp only: filter.simps)
    with ne show False by blast
  qed
  have tm: "trendMap (trend_fold h c fc par uf fva)
              = foldl (\<lambda>tm x. upsert (fst x) [] (?inner x) tm) [] ?TR"
    by (simp add: trend_fold_def trendMap_fold)
  have "map_of (foldl (\<lambda>tm x. upsert (fst x) [] (?inner x) tm) [] ?TR) date
          = (case ?TRd of [] \<Rightarrow> None
             | r # rs' \<Rightarrow> Some (foldl (\<lambda>a r. ?inner r a) [] (r # rs')))"
    using group_fold_lookup_Nil [of fst "\<lambda>x. []" ?inner ?TR date] by simp
  with ned tm have bs: "map_of (trendMap (trend_fold h c fc par uf fva)) date
                          = Some (foldl (\<lambda>a r. ?inner r a) [] ?TRd)"
    by (auto split: list.splits)
  have "map_of (foldl (\<lambda>a r. ?inner r a) [] ?TRd) lk
          = (case filter (\<lambda>x. fst (snd x) = lk) ?TRd of [] \<Rightarrow> None
             | r # rs' \<Rightarrow> Some (foldl (\<lambda>b x. bucket_step h par (snd (snd x)) b) new_bucket (r # rs')))"
    using group_fold_lookup_Nil [of "\<lambda>x. fst (snd x)" "\<lambda>x. new_bucket"
        "\<lambda>x. bucket_step h par (snd (snd x))" ?TRd lk]
    by simp
  with ne obtain b where "map_of (foldl (\<lambda>a r. ?inner r a) [] ?TRd) lk = Some b"
    by (auto split: list.splits)
  then have "(lk, b) \<in> set (foldl (\<lambda>a r. ?inner r a) [] ?TRd)"
    by (rule map_of_SomeD)
  with bs show ?thesis by blast
qed








section \<open>Rows with a yarn length below 300\<close>




section \<open>The derived composites IPI and HSIPI\<close>




end
